theory Spec2Isabelle
  imports Complex_Main "HOL-Library.Log_Nat"
begin

section \<open>Intraday momentum executor: a shallow embedding\<close>

text \<open>
  The embedding follows \<^verbatim>\<open>intraday_momentum_executor.py\<close>. A Python float is an IEEE
  binary64 number: a finite one is modelled by its value, a real number, and the type
  \<open>pyfloat\<close> adds the two infinities and NaN where an operation can produce or meet them.
  Every arithmetic operation of the source rounds its exact result to the nearest double,
  a tie going to the even significand, a result beyond the largest double becoming an
  infinity; a decimal literal \<^verbatim>\<open>c\<close> of the source is the double \<open>dbl c\<close>. The prices and
  volumes of a bar are finite doubles: a price quoted as 1.17 is the field value
  \<open>dbl 1.17\<close>, not the real number 1.17. The sign of a zero is not modelled: no operation
  of the program tells the two zeros apart.

  Calls into the broker session (\<^verbatim>\<open>ib\<close>) are the program's inputs: each is a
  field of the record \<open>broker\<close> and answers either with a value or with an
  exception. Exceptions are values of the type \<open>exn\<close>, results are sums with
  \<open>Inl\<close> for a raised exception, and what the program does to the outside world is a
  list of events.
\<close>

subsection \<open>Python floats\<close>

datatype pyfloat = Fin real | PInf | NInf | NaN

text \<open>The integer nearest to \<open>x\<close>, the even one of two equally near.\<close>

definition round_half_even :: "real \<Rightarrow> int" where
  "round_half_even x =
     (let f = \<lfloor>x\<rfloor>; d = x - of_int f
      in if d < 1 / 2 then f
         else if 1 / 2 < d then f + 1
         else if even f then f else f + 1)"

text \<open>
  The binary exponent of \<open>x \<noteq> 0\<close>, the \<open>e\<close> with \<open>2 powi e \<le> \<bar>x\<bar> < 2 powi (e + 1)\<close>,
  computed from the bit length of an integer.
\<close>

definition binade :: "real \<Rightarrow> int" where
  "binade x =
     (if 1 \<le> \<bar>x\<bar> then bitlen \<lfloor>\<bar>x\<bar>\<rfloor> - 1 else - bitlen (\<lceil>1 / \<bar>x\<bar>\<rceil> - 1))"

text \<open>
  Rounding to binary64 with no bound on the exponent above: 53 significant bits, and below
  the exponent \<open>- 1022\<close> the fixed spacing \<open>2 powi (- 1074)\<close> of the subnormal numbers.
\<close>

definition dbl :: "real \<Rightarrow> real" where
  "dbl x =
     (if x = 0 then 0
      else let e = max (binade x) (- 1022) - 52
           in of_int (round_half_even (x / 2 powi e)) * 2 powi e)"

text \<open>Rounding as the hardware does it: a rounded value out of range is an infinity.\<close>

definition fl :: "real \<Rightarrow> pyfloat" where
  "fl x =
     (let y = dbl x
      in if 2 ^ 1024 \<le> y then PInf else if y \<le> - (2 ^ 1024) then NInf else Fin y)"

text \<open>The sign of a float that is not NaN, and the infinity of a sign (NaN for no sign).\<close>

fun sign_of :: "pyfloat \<Rightarrow> real" where
  "sign_of (Fin x) = sgn x"
| "sign_of PInf = 1"
| "sign_of NInf = - 1"
| "sign_of NaN = 0"

definition inf_of_sign :: "real \<Rightarrow> pyfloat" where
  "inf_of_sign s = (if 0 < s then PInf else if s < 0 then NInf else NaN)"

text \<open>\<^verbatim>\<open>a * b\<close>.\<close>

fun fmul :: "pyfloat \<Rightarrow> pyfloat \<Rightarrow> pyfloat" where
  "fmul NaN b = NaN"
| "fmul a NaN = NaN"
| "fmul (Fin x) (Fin y) = fl (x * y)"
| "fmul a b = inf_of_sign (sign_of a * sign_of b)"

subsection \<open>Exceptions and results\<close>

text \<open>
  Exceptions of class \<^verbatim>\<open>Exception\<close>: those the built-in operations raise, and whatever
  a broker call raises.
\<close>

datatype exn = ValueError | OverflowError | ZeroDivisionError | BrokerError string

definition bind :: "exn + 'a \<Rightarrow> ('a \<Rightarrow> exn + 'b) \<Rightarrow> exn + 'b" where
  "bind r k = (case r of Inl e \<Rightarrow> Inl e | Inr x \<Rightarrow> k x)"

text \<open>
  \<^verbatim>\<open>a / b\<close>: Python raises on a zero divisor before it looks at the dividend; otherwise
  the quotient is the IEEE one.
\<close>

fun fdiv :: "pyfloat \<Rightarrow> pyfloat \<Rightarrow> pyfloat" where
  "fdiv NaN b = NaN"
| "fdiv a NaN = NaN"
| "fdiv (Fin x) (Fin y) = fl (x / y)"
| "fdiv (Fin x) b = Fin 0"
| "fdiv a (Fin y) = inf_of_sign (sign_of a * sgn y)"
| "fdiv a b = NaN"

definition py_truediv :: "pyfloat \<Rightarrow> pyfloat \<Rightarrow> exn + pyfloat" where
  "py_truediv a b = (if b = Fin 0 then Inl ZeroDivisionError else Inr (fdiv a b))"

text \<open>\<^verbatim>\<open>a > b\<close> and \<^verbatim>\<open>a < b\<close>: false when either side is NaN.\<close>

fun fgt :: "pyfloat \<Rightarrow> pyfloat \<Rightarrow> bool" where
  "fgt NaN b = False"
| "fgt a NaN = False"
| "fgt (Fin x) (Fin y) = (x > y)"
| "fgt NInf b = False"
| "fgt a PInf = False"
| "fgt a b = True"

definition flt :: "pyfloat \<Rightarrow> pyfloat \<Rightarrow> bool" where
  "flt a b = fgt b a"

text \<open>Truthiness of a float, as tested by \<^verbatim>\<open>not x\<close> and \<^verbatim>\<open>if x\<close>: only zero is false.\<close>

definition truthy :: "real \<Rightarrow> bool" where
  "truthy x \<longleftrightarrow> x \<noteq> 0"

fun truthy_float :: "pyfloat \<Rightarrow> bool" where
  "truthy_float (Fin x) = truthy x"
| "truthy_float a = True"

text \<open>
  \<^verbatim>\<open>int(x)\<close> truncates toward zero and \<^verbatim>\<open>math.floor(x)\<close> rounds down; both raise on an
  infinity and on NaN.
\<close>

fun py_int :: "pyfloat \<Rightarrow> exn + int" where
  "py_int (Fin x) = Inr (if 0 \<le> x then \<lfloor>x\<rfloor> else \<lceil>x\<rceil>)"
| "py_int NaN = Inl ValueError"
| "py_int a = Inl OverflowError"

fun py_floor :: "pyfloat \<Rightarrow> exn + int" where
  "py_floor (Fin x) = Inr \<lfloor>x\<rfloor>"
| "py_floor NaN = Inl ValueError"
| "py_floor a = Inl OverflowError"

text \<open>
  \<^verbatim>\<open>round(x, 2)\<close>: the exact value of \<open>x\<close> rounded to two decimals, a tie going to the
  even neighbour, and that decimal rounded to a double.
\<close>

fun py_round2 :: "pyfloat \<Rightarrow> pyfloat" where
  "py_round2 (Fin x) = Fin (dbl (of_int (round_half_even (x * 100)) / 100))"
| "py_round2 a = a"

text \<open>\<^verbatim>\<open>max(a, b)\<close> keeps \<open>a\<close> unless \<open>b\<close> is greater.\<close>

definition py_max2 :: "pyfloat \<Rightarrow> pyfloat \<Rightarrow> pyfloat" where
  "py_max2 a b = (if fgt b a then b else a)"

text \<open>\<^verbatim>\<open>max\<close> and \<^verbatim>\<open>min\<close> of a sequence of finite floats.\<close>

fun py_max :: "real list \<Rightarrow> exn + real" where
  "py_max [] = Inl ValueError"
| "py_max (x # xs) = Inr (fold max xs x)"

fun py_min :: "real list \<Rightarrow> exn + real" where
  "py_min [] = Inl ValueError"
| "py_min (x # xs) = Inr (fold min xs x)"

text \<open>The slice \<^verbatim>\<open>xs[i:j]\<close> for indices already made non-negative.\<close>

definition slice :: "'a list \<Rightarrow> nat \<Rightarrow> nat \<Rightarrow> 'a list" where
  "slice xs i j = take (j - i) (drop i xs)"

subsection \<open>Data\<close>

text \<open>A one-minute bar; the fields \<^verbatim>\<open>open, high, low, close, volume\<close> of the source.\<close>

record bar =
  bar_open :: real
  bar_high :: real
  bar_low :: real
  bar_close :: real
  bar_volume :: real

text \<open>
  The tuple returned by \<^verbatim>\<open>fetch_intraminute_features\<close>. The two ratios are quotients
  and can be infinite.
\<close>

record features =
  open_price :: real
  high_price :: real
  low_price :: real
  close_price :: real
  volume :: real
  prev_range_ratio :: pyfloat
  last_five_ratio :: pyfloat

record contract =
  symbol :: string
  exchange :: string
  currency :: string

definition Stock :: "string \<Rightarrow> string \<Rightarrow> string \<Rightarrow> contract" where
  "Stock s e c = \<lparr>symbol = s, exchange = e, currency = c\<rparr>"

text \<open>
  A quote. A side is a float, NaN as long as the session has no value for it, or
  \<^verbatim>\<open>None\<close>.
\<close>

record ticker =
  bid :: "pyfloat option"
  ask :: "pyfloat option"

text \<open>
  The stop-limit order handed to \<^verbatim>\<open>ib.placeOrder\<close>. \<open>goodTillDate\<close> is the
  expiry in seconds on the clock of \<^verbatim>\<open>datetime.now()\<close>.
\<close>

record order =
  action :: string
  totalQuantity :: int
  stopPrice :: pyfloat
  lmtPrice :: pyfloat
  outsideRth :: bool
  tif :: string
  goodTillDate :: int

text \<open>
  The broker session as seen by one evaluation: the answer of each call, and the clock
  (\<^verbatim>\<open>datetime.now()\<close> in whole seconds). \<open>reqExecutions\<close> answers with the symbols
  of today's executions.
\<close>

record broker =
  reqHistoricalDataAsync :: "contract \<Rightarrow> exn + bar list"
  reqMktData :: "contract \<Rightarrow> exn + ticker"
  reqExecutions :: "exn + string list"
  placeOrder :: "contract \<Rightarrow> order \<Rightarrow> exn + unit"
  now :: int

text \<open>What an evaluation does to the outside: orders placed and lines printed.\<close>

datatype event =
    Placed contract order
  | EntryMessage string int pyfloat pyfloat
  | ErrorMessage string exn

subsection \<open>Universe construction\<close>






subsection \<open>Market data utilities\<close>

definition get_spread_ratio :: "broker \<Rightarrow> contract \<Rightarrow> exn + pyfloat" where
  "get_spread_ratio ib c =
     bind (reqMktData ib c) (\<lambda>t.
       case (bid t, ask t) of
         (Some bid_price, Some ask_price) \<Rightarrow>
           if \<not> truthy_float bid_price \<or> \<not> truthy_float ask_price then Inr PInf
           else py_truediv ask_price bid_price
       | _ \<Rightarrow> Inr PInf)"

definition fetch_symbols_traded_today :: "broker \<Rightarrow> exn + string set" where
  "fetch_symbols_traded_today ib = bind (reqExecutions ib) (\<lambda>executions. Inr (set executions))"

text \<open>
  Lines 97 to 115 of \<^verbatim>\<open>submit_entry_order\<close>: prices, size and expiry of the order,
  or \<open>None\<close> when the function returns without one.
\<close>

definition build_order :: "int \<Rightarrow> real \<Rightarrow> int \<Rightarrow> real \<Rightarrow> exn + order option" where
  "build_order clock reference_price minutes_valid dollar_risk =
     (let stop_price = py_round2 (fmul (Fin (dbl 1.02)) (Fin reference_price));
          limit_price = py_round2 (fmul (Fin (dbl 1.08)) (Fin reference_price))
      in bind (py_truediv (Fin dollar_risk) (py_max2 stop_price (Fin (dbl 0.01)))) (\<lambda>size.
         bind (py_int size) (\<lambda>quantity.
           if quantity \<le> 0 then Inr None
           else
             let start_of_minute = clock - clock mod 60;
                 expiration = start_of_minute + 60 * minutes_valid - 4 * 3600
             in Inr (Some \<lparr>action = ''BUY'', totalQuantity = quantity,
                            stopPrice = stop_price, lmtPrice = limit_price,
                            outsideRth = True, tif = ''GTD'', goodTillDate = expiration\<rparr>))))"

definition submit_entry_order ::
    "broker \<Rightarrow> contract \<Rightarrow> real \<Rightarrow> int \<Rightarrow> real \<Rightarrow> exn + event list" where
  "submit_entry_order ib c reference_price minutes_valid dollar_risk =
     bind (get_spread_ratio ib c) (\<lambda>spread.
       if fgt spread (Fin (dbl 1.05)) then Inr []
       else bind (fetch_symbols_traded_today ib) (\<lambda>traded.
         if symbol c \<in> traded then Inr []
         else bind (build_order (now ib) reference_price minutes_valid dollar_risk) (\<lambda>built.
           case built of
             None \<Rightarrow> Inr []
           | Some ord \<Rightarrow>
               bind (placeOrder ib c ord) (\<lambda>_.
                 Inr [Placed c ord,
                      EntryMessage (symbol c) (totalQuantity ord) (stopPrice ord)
                        (lmtPrice ord)]))))"

subsection \<open>Feature extraction\<close>

text \<open>\<^verbatim>\<open>fetch_intraminute_features\<close> after the bars have arrived (lines 142 to 191).\<close>

definition intraminute_features :: "bar list \<Rightarrow> exn + features" where
  "intraminute_features bars =
     (if bars = [] then
        Inr \<lparr>open_price = 0, high_price = 0, low_price = 0, close_price = 0, volume = 0,
             prev_range_ratio = Fin 0, last_five_ratio = Fin 1\<rparr>
      else
        let latest = last bars in
        if length bars = 1 then
          Inr \<lparr>open_price = bar_open latest, high_price = bar_high latest,
               low_price = bar_low latest, close_price = bar_close latest,
               volume = bar_volume latest, prev_range_ratio = Fin 1.0,
               last_five_ratio = Fin 1.0\<rparr>
        else
          let prev = bars ! (length bars - 2) in
          if length bars < 6 then
            bind (if truthy (bar_low prev)
                  then py_truediv (Fin (bar_high prev)) (Fin (bar_low prev))
                  else Inr (Fin 1.0)) (\<lambda>prev_ratio.
              Inr \<lparr>open_price = bar_open latest, high_price = bar_high latest,
                   low_price = bar_low latest, close_price = bar_close latest,
                   volume = bar_volume latest, prev_range_ratio = prev_ratio,
                   last_five_ratio = Fin 1.0\<rparr>)
          else
            let recent_window = slice bars (length bars - 6) (length bars - 1) in
            bind (py_max (map bar_high recent_window)) (\<lambda>max_price.
            bind (py_min (filter truthy (map bar_low recent_window))) (\<lambda>min_price.
            bind (if truthy (bar_low prev)
                  then py_truediv (Fin (bar_high prev)) (Fin (bar_low prev))
                  else Inr (Fin 1.0)) (\<lambda>prev_ratio.
            bind (if truthy min_price
                  then py_truediv (Fin max_price) (Fin min_price)
                  else Inr (Fin 1.0)) (\<lambda>last_five.
              Inr \<lparr>open_price = bar_open latest, high_price = bar_high latest,
                   low_price = bar_low latest, close_price = bar_close latest,
                   volume = bar_volume latest, prev_range_ratio = prev_ratio,
                   last_five_ratio = last_five\<rparr>)))))"

definition fetch_intraminute_features :: "broker \<Rightarrow> contract \<Rightarrow> exn + features" where
  "fetch_intraminute_features ib c = bind (reqHistoricalDataAsync ib c) intraminute_features"

subsection \<open>Core trading logic\<close>

text \<open>
  The source comments name the two entries a stronger and a mild breakout; \<open>Enter\<close>
  carries the reference price passed to \<^verbatim>\<open>submit_entry_order\<close>, and
  \<open>dollar_risk\<close> is the budget passed with it.
\<close>

datatype risk_tier = Strong | Mild

datatype decision = NoTrade | Enter risk_tier real

fun dollar_risk :: "risk_tier \<Rightarrow> real" where
  "dollar_risk Strong = 10"
| "dollar_risk Mild = 5"

text \<open>
  Lines 224 to 226: the quotient, its product with 100, the floor of that, and the floor
  over 100, each a float operation. \<^verbatim>\<open>math.floor\<close> gives an integer, and the quotient
  of two integers is the double nearest to it.
\<close>

definition bar_range_ratio :: "real \<Rightarrow> real \<Rightarrow> exn + real" where
  "bar_range_ratio high low =
     bind (py_truediv (Fin high) (Fin low)) (\<lambda>quotient.
     bind (py_floor (fmul quotient (Fin 100))) (\<lambda>hundredths.
       Inr (dbl (of_int hundredths / 100))))"

text \<open>
  Lines 221 to 244: which call of \<^verbatim>\<open>submit_entry_order\<close> is reached, if any, or the
  exception raised on the way.
\<close>

definition trade_signal :: "features \<Rightarrow> exn + decision" where
  "trade_signal f =
     (if \<not> truthy (high_price f) \<or> \<not> truthy (low_price f) then Inr NoTrade
      else
        bind (bar_range_ratio (high_price f) (low_price f)) (\<lambda>ratio.
          if close_price f \<le> open_price f then Inr NoTrade
          else if ratio > dbl 1.30 then Inr NoTrade
          else if fgt (prev_range_ratio f) (Fin (dbl 1.05)) then Inr NoTrade
          else if close_price f > 5 then Inr NoTrade
          else if dbl 1.10 < ratio \<and> ratio < dbl 1.30 then Inr (Enter Strong (high_price f))
          else if ratio > dbl 1.05 \<and> flt (last_five_ratio f) (Fin (dbl 1.03))
            then Inr (Enter Mild (high_price f))
          else Inr NoTrade))"

text \<open>The body of the \<^verbatim>\<open>try\<close> block once the features are there.\<close>

definition evaluate_features :: "broker \<Rightarrow> contract \<Rightarrow> features \<Rightarrow> exn + event list" where
  "evaluate_features ib c f =
     bind (trade_signal f) (\<lambda>signal.
       case signal of
         NoTrade \<Rightarrow> Inr []
       | Enter tier reference_price \<Rightarrow>
           submit_entry_order ib c reference_price 3 (dollar_risk tier))"

text \<open>
  The \<^verbatim>\<open>try ... except Exception\<close> of \<^verbatim>\<open>evaluate_and_trade_symbol\<close>: an
  exception of the body is printed and the function returns.
\<close>

definition evaluate_and_trade_symbol :: "broker \<Rightarrow> contract \<Rightarrow> exn + event list" where
  "evaluate_and_trade_symbol ib c =
     (case bind (fetch_intraminute_features ib c) (evaluate_features ib c) of
        Inl exc \<Rightarrow> Inr [ErrorMessage (symbol c) exc]
      | Inr events \<Rightarrow> Inr events)"

text \<open>
  \<^verbatim>\<open>asyncio.gather\<close> with its default \<^verbatim>\<open>return_exceptions=False\<close>: the results of
  all tasks in order, or an exception that one of them raised.
\<close>

fun gather :: "(exn + 'a) list \<Rightarrow> exn + 'a list" where
  "gather [] = Inr []"
| "gather (r # rs) =
     (case r of
        Inl e \<Rightarrow> Inl e
      | Inr x \<Rightarrow> (case gather rs of Inl e \<Rightarrow> Inl e | Inr xs \<Rightarrow> Inr (x # xs)))"

definition scan_universe_once :: "broker \<Rightarrow> contract list \<Rightarrow> exn + event list list" where
  "scan_universe_once ib contracts = gather (map (evaluate_and_trade_symbol ib) contracts)"

text \<open>
  The loop of \<^verbatim>\<open>run_intraday_scanner\<close>, run over the broker session as it is at each
  successive heartbeat. An iteration either scans or sleeps; an exception that reaches the
  loop ends it.
\<close>

datatype iteration = Scanned "event list list" | Slept

fun run_intraday_scanner :: "contract list \<Rightarrow> broker list \<Rightarrow> exn + iteration list" where
  "run_intraday_scanner contracts [] = Inr []"
| "run_intraday_scanner contracts (ib # rest) =
     (if now ib mod 60 > 45 then
        bind (scan_universe_once ib contracts) (\<lambda>events.
        bind (run_intraday_scanner contracts rest) (\<lambda>more. Inr (Scanned events # more)))
      else bind (run_intraday_scanner contracts rest) (\<lambda>more. Inr (Slept # more)))"

subsection \<open>The concurrency limiter\<close>

text \<open>
  \<^verbatim>\<open>scan_universe_once\<close> creates one \<^verbatim>\<open>asyncio.Semaphore(50)\<close> and hands it to
  every task; a task enters \<^verbatim>\<open>async with sem\<close> before its body and leaves it when the
  body is over, whether it returned or raised. A task is \<open>Waiting\<close> before it has the
  permit, \<open>Holding\<close> inside the block, and \<open>Finished\<close> with the outcome of its body
  afterwards. The event loop interleaves the tasks in some order: a schedule is a list of
  steps, and a step that cannot happen in a state (acquiring with no permit left, a task
  out of turn) is not part of any run.
\<close>

definition SEMAPHORE_BOUND :: nat where
  "SEMAPHORE_BOUND = 50"

datatype task = Waiting | Holding | Finished "exn + event list"

record cycle =
  permits :: nat
  tasks :: "task list"

datatype step = Acquire nat | Leave nat "exn + event list"

fun fire :: "cycle \<Rightarrow> step \<Rightarrow> cycle option" where
  "fire s (Acquire i) =
     (if i < length (tasks s) \<and> tasks s ! i = Waiting \<and> 0 < permits s
      then Some \<lparr>permits = permits s - 1, tasks = (tasks s)[i := Holding]\<rparr>
      else None)"
| "fire s (Leave i outcome) =
     (if i < length (tasks s) \<and> tasks s ! i = Holding
      then Some \<lparr>permits = permits s + 1, tasks = (tasks s)[i := Finished outcome]\<rparr>
      else None)"

fun run_schedule :: "cycle \<Rightarrow> step list \<Rightarrow> cycle option" where
  "run_schedule s [] = Some s"
| "run_schedule s (a # as) =
     (case fire s a of None \<Rightarrow> None | Some s' \<Rightarrow> run_schedule s' as)"

definition scan_start :: "nat \<Rightarrow> cycle" where
  "scan_start n = \<lparr>permits = SEMAPHORE_BOUND, tasks = replicate n Waiting\<rparr>"

definition holders :: "cycle \<Rightarrow> nat" where
  "holders s = length (filter (\<lambda>t. t = Holding) (tasks s))"

subsection \<open>The rules as the specification words them\<close>

text \<open>
  Section 4.2: \<open>floor (high / low * 100) / 100\<close>, in the arithmetic of the program; an
  infinite product has no floor and stays infinite.
\<close>

definition barRangeRatio :: "real \<Rightarrow> real \<Rightarrow> pyfloat" where
  "barRangeRatio high low =
     (case fmul (fdiv (Fin high) (Fin low)) (Fin 100) of
        Fin product \<Rightarrow> Fin (dbl (of_int \<lfloor>product\<rfloor> / 100))
      | other \<Rightarrow> other)"



text \<open>Section 4.1, rule 3: the previous bar's range ratio.\<close>

definition spec_prevBarRangeRatio :: "bar \<Rightarrow> pyfloat" where
  "spec_prevBarRangeRatio prev =
     (if bar_low prev > 0 then fl (bar_high prev / bar_low prev) else Fin 1.0)"

text \<open>Section 4.1, rule 4: the range ratio of the five bars before the last.\<close>

definition spec_lastFiveRangeRatio :: "bar list \<Rightarrow> pyfloat" where
  "spec_lastFiveRangeRatio window =
     (let lows = filter (\<lambda>l. l > 0) (map bar_low window)
      in if lows = [] then Fin 1.0
         else fl (Max (set (map bar_high window)) / Min (set lows)))"


subsection \<open>Example inputs\<close>

text \<open>Concrete bars, feature vectors, a contract, broker sessions and orders.\<close>

definition plain_bar :: bar where
  "plain_bar =
     \<lparr>bar_open = 1, bar_high = dbl 1.2, bar_low = 1, bar_close = dbl 1.1, bar_volume = 100\<rparr>"

definition negative_low_bar :: bar where
  "negative_low_bar =
     \<lparr>bar_open = 1, bar_high = 2, bar_low = - 1, bar_close = 1, bar_volume = 100\<rparr>"

definition zero_low_bar :: bar where
  "zero_low_bar = \<lparr>bar_open = 0, bar_high = 0, bar_low = 0, bar_close = 0, bar_volume = 0\<rparr>"

definition example_contract :: contract where
  "example_contract = Stock ''ABCD'' ''SMART'' ''USD''"

definition example_broker :: broker where
  "example_broker =
     \<lparr>reqHistoricalDataAsync =
        (\<lambda>c. if symbol c = ''FAIL'' then Inl (BrokerError ''timeout'')
             else if symbol c = ''ZERO'' then Inr (replicate 6 zero_low_bar)
             else Inr [plain_bar]),
      reqMktData = (\<lambda>c. Inr \<lparr>bid = Some (Fin 2.00), ask = Some (Fin (dbl 2.04))\<rparr>),
      reqExecutions = Inr [''WXYZ''],
      placeOrder = (\<lambda>c ord. Inr ()),
      now = 50030\<rparr>"

definition wide_spread_broker :: broker where
  "wide_spread_broker =
     example_broker\<lparr>reqMktData :=
       (\<lambda>c. Inr \<lparr>bid = Some (Fin 1.00), ask = Some (Fin (dbl 1.10))\<rparr>)\<rparr>"

text \<open>A session that has no quote for the symbol yet: both sides are NaN.\<close>

definition nan_quote_broker :: broker where
  "nan_quote_broker =
     example_broker\<lparr>reqMktData := (\<lambda>c. Inr \<lparr>bid = Some NaN, ask = Some NaN\<rparr>)\<rparr>"

definition example_order :: order where
  "example_order =
     \<lparr>action = ''BUY'', totalQuantity = 4, stopPrice = Fin (dbl 2.04),
      lmtPrice = Fin (dbl 2.16), outsideRth = True, tif = ''GTD'', goodTillDate = 35760\<rparr>"

definition strong_order :: order where
  "strong_order =
     \<lparr>action = ''BUY'', totalQuantity = 8, stopPrice = Fin (dbl 1.22),
      lmtPrice = Fin (dbl 1.30), outsideRth = True, tif = ''GTD'', goodTillDate = 35760\<rparr>"

definition mild_features :: features where
  "mild_features =
     \<lparr>open_price = 1, high_price = dbl 1.1, low_price = 1, close_price = dbl 1.05,
      volume = 100, prev_range_ratio = Fin 1, last_five_ratio = Fin (dbl 1.01)\<rparr>"


section \<open>Properties\<close>

subsection \<open>Rounding to a double\<close>






text \<open>\<open>binade\<close> is the binary exponent, and the only one.\<close>

lemma binade_bounds:
  assumes "x \<noteq> 0"
  shows "2 powi (binade x) \<le> \<bar>x\<bar> \<and> \<bar>x\<bar> < 2 powi (binade x + 1)"
proof (cases "1 \<le> \<bar>x\<bar>")
  case True
  define n where "n = \<lfloor>\<bar>x\<bar>\<rfloor>"
  have n: "0 < n" using True by (simp add: n_def)
  have b: "binade x = bitlen n - 1" using True by (simp add: binade_def n_def)
  have pos: "1 \<le> bitlen n" using n by (simp add: bitlen_alt_def)
  from bitlen_bounds [OF n]
  have lo: "2 ^ nat (bitlen n - 1) \<le> n" and hi: "n < 2 ^ nat (bitlen n)" by simp_all
  have "real_of_int (2 ^ nat (bitlen n - 1)) \<le> real_of_int n"
    using lo by (simp only: of_int_le_iff)
  also have "real_of_int n \<le> \<bar>x\<bar>" by (simp add: n_def)
  finally have 1: "2 powi (bitlen n - 1) \<le> \<bar>x\<bar>"
    using pos by (simp add: power_int_def)
  have "n + 1 \<le> 2 ^ nat (bitlen n)" using hi by simp
  then have "real_of_int (n + 1) \<le> real_of_int (2 ^ nat (bitlen n))"
    by (simp only: of_int_le_iff)
  moreover have "\<bar>x\<bar> < real_of_int (n + 1)" by (simp add: n_def)
  ultimately have 2: "\<bar>x\<bar> < 2 powi (bitlen n)"
    using pos by (simp add: power_int_def)
  show ?thesis using 1 2 b by simp
next
  case False
  define y where "y = 1 / \<bar>x\<bar>"
  define m where "m = \<lceil>y\<rceil>"
  define c where "c = bitlen (m - 1)"
  have ax: "0 < \<bar>x\<bar>" "\<bar>x\<bar> < 1" using assms False by simp_all
  have y: "1 < y" using ax by (simp add: y_def)
  have m: "1 < m" using y by (simp add: m_def)
  have b: "binade x = - c" using False by (simp add: binade_def c_def m_def y_def)
  have m1: "0 < m - 1" using m by simp
  have pos: "1 \<le> c" using m1 by (simp add: c_def bitlen_alt_def)
  from bitlen_bounds [OF m1]
  have lo: "2 ^ nat (c - 1) \<le> m - 1" and hi: "m - 1 < 2 ^ nat c" by (simp_all add: c_def)
  have "real_of_int (m - 1) < y" unfolding m_def by linarith
  moreover have "real_of_int (2 ^ nat (c - 1)) \<le> real_of_int (m - 1)"
    using lo by (simp only: of_int_le_iff)
  moreover have "real_of_int (2 ^ nat (c - 1)) = 2 ^ nat (c - 1)" by simp
  ultimately have ylo: "2 ^ nat (c - 1) < y" by linarith
  have "m \<le> 2 ^ nat c" using hi by simp
  then have "real_of_int m \<le> real_of_int (2 ^ nat c)" by (simp only: of_int_le_iff)
  moreover have "y \<le> real_of_int m" unfolding m_def by linarith
  moreover have "real_of_int (2 ^ nat c) = 2 ^ nat c" by simp
  ultimately have yhi: "y \<le> 2 ^ nat c" by linarith
  have xy: "\<bar>x\<bar> = 1 / y" using ax by (simp add: y_def)
  have p1: "(2::real) powi (- c) = 1 / 2 ^ nat c"
    using pos by (simp add: power_int_def field_simps)
  have p2: "(2::real) powi (- c + 1) = 1 / 2 ^ nat (c - 1)"
    using pos by (simp add: power_int_def field_simps)
  have 1: "2 powi (- c) \<le> \<bar>x\<bar>"
    unfolding p1 xy using yhi y by (simp add: frac_le)
  have 2: "\<bar>x\<bar> < 2 powi (- c + 1)"
    unfolding p2 xy using ylo by (simp add: frac_less2)
  show ?thesis using 1 2 b by simp
qed

lemma binade_unique:
  assumes "2 powi e \<le> \<bar>x\<bar>" "\<bar>x\<bar> < 2 powi (e + 1)"
  shows "binade x = e"
proof -
  have "x \<noteq> 0"
  proof
    assume "x = 0"
    with assms(1) have "(2::real) powi e \<le> 0" by simp
    moreover have "(0::real) < 2 powi e" by simp
    ultimately show False by simp
  qed
  from binade_bounds [OF this]
  have b: "2 powi (binade x) \<le> \<bar>x\<bar>" "\<bar>x\<bar> < 2 powi (binade x + 1)" by simp_all
  have "\<not> e < binade x"
  proof
    assume "e < binade x"
    then have "(2::real) powi (e + 1) \<le> 2 powi (binade x)"
      by (intro power_int_increasing) simp_all
    with b(1) assms(2) show False by simp
  qed
  moreover have "\<not> binade x < e"
  proof
    assume "binade x < e"
    then have "(2::real) powi (binade x + 1) \<le> 2 powi e"
      by (intro power_int_increasing) simp_all
    with b(2) assms(1) show False by simp
  qed
  ultimately show ?thesis by simp
qed

lemma dbl_eval:
  assumes "2 powi e \<le> \<bar>x\<bar>" "\<bar>x\<bar> < 2 powi (e + 1)" "- 1022 \<le> e"
  shows "dbl x = of_int (round_half_even (x / 2 powi (e - 52))) * 2 powi (e - 52)"
proof -
  have "x \<noteq> 0"
  proof
    assume "x = 0"
    with assms(1) have "(2::real) powi e \<le> 0" by simp
    moreover have "(0::real) < 2 powi e" by simp
    ultimately show False by simp
  qed
  moreover have "max (binade x) (- 1022) = e"
    using binade_unique [OF assms(1,2)] assms(3) by simp
  ultimately show ?thesis
    by (simp add: dbl_def Let_def)
qed

text \<open>
  The doubles the examples meet, each the value of \<open>dbl\<close> at a decimal literal or at the
  exact result of an operation, computed with the exponent given.
\<close>

lemma dbl_value_0: "dbl (- 2) = - 2"
  by (rule trans [OF dbl_eval [where e = "1"]])
     (simp_all add: round_half_even_def Let_def power_int_minus)

lemma dbl_value_1: "dbl (1 / 100) = 5764607523034235 / 576460752303423488"
  by (rule trans [OF dbl_eval [where e = "-7"]])
     (simp_all add: round_half_even_def Let_def power_int_minus)

lemma dbl_value_2: "dbl (6890507429876859 / 9007199254740992) = 6890507429876859 / 9007199254740992"
  by (rule trans [OF dbl_eval [where e = "-1"]])
     (simp_all add: round_half_even_def Let_def power_int_minus)

lemma dbl_value_3: "dbl (77 / 100) = 1733885856537641 / 2251799813685248"
  by (rule trans [OF dbl_eval [where e = "-1"]])
     (simp_all add: round_half_even_def Let_def power_int_minus)

lemma dbl_value_4: "dbl (81 / 100) = 1823957849085051 / 2251799813685248"
  by (rule trans [OF dbl_eval [where e = "-1"]])
     (simp_all add: round_half_even_def Let_def power_int_minus)

lemma dbl_value_5: "dbl (1823957849085051 / 2251799813685248) = 1823957849085051 / 2251799813685248"
  by (rule trans [OF dbl_eval [where e = "-1"]])
     (simp_all add: round_half_even_def Let_def power_int_minus)

lemma dbl_value_6: "dbl (9 / 10) = 8106479329266893 / 9007199254740992"
  by (rule trans [OF dbl_eval [where e = "-1"]])
     (simp_all add: round_half_even_def Let_def power_int_minus)

lemma dbl_value_7: "dbl (101 / 100) = 4548635623644201 / 4503599627370496"
  by (rule trans [OF dbl_eval [where e = "0"]])
     (simp_all add: round_half_even_def Let_def power_int_minus)

lemma dbl_value_8: "dbl (51 / 50) = 2296835809958953 / 2251799813685248"
  by (rule trans [OF dbl_eval [where e = "0"]])
     (simp_all add: round_half_even_def Let_def power_int_minus)

lemma dbl_value_9: "dbl (2296835809958953 / 2251799813685248) = 2296835809958953 / 2251799813685248"
  by (rule trans [OF dbl_eval [where e = "0"]])
     (simp_all add: round_half_even_def Let_def power_int_minus)

lemma dbl_value_10: "dbl (103 / 100) = 4638707616191611 / 4503599627370496"
  by (rule trans [OF dbl_eval [where e = "0"]])
     (simp_all add: round_half_even_def Let_def power_int_minus)

lemma dbl_value_11: "dbl (21 / 20) = 4728779608739021 / 4503599627370496"
  by (rule trans [OF dbl_eval [where e = "0"]])
     (simp_all add: round_half_even_def Let_def power_int_minus)

lemma dbl_value_12: "dbl (447545212969943 / 422212465065984) = 4773815605012725 / 4503599627370496"
  by (rule trans [OF dbl_eval [where e = "0"]])
     (simp_all add: round_half_even_def Let_def power_int_minus)

lemma dbl_value_13: "dbl (27 / 25) = 607985949695017 / 562949953421312"
  by (rule trans [OF dbl_eval [where e = "0"]])
     (simp_all add: round_half_even_def Let_def power_int_minus)

lemma dbl_value_14: "dbl (11 / 10) = 2476979795053773 / 2251799813685248"
  by (rule trans [OF dbl_eval [where e = "0"]])
     (simp_all add: round_half_even_def Let_def power_int_minus)

lemma dbl_value_15: "dbl (2476979795053773 / 2251799813685248) = 2476979795053773 / 2251799813685248"
  by (rule trans [OF dbl_eval [where e = "0"]])
     (simp_all add: round_half_even_def Let_def power_int_minus)

lemma dbl_value_16: "dbl (117 / 100) = 658651445502935 / 562949953421312"
  by (rule trans [OF dbl_eval [where e = "0"]])
     (simp_all add: round_half_even_def Let_def power_int_minus)

lemma dbl_value_17: "dbl (5404319552844595 / 4503599627370496) = 5404319552844595 / 4503599627370496"
  by (rule trans [OF dbl_eval [where e = "0"]])
     (simp_all add: round_half_even_def Let_def power_int_minus)

lemma dbl_value_18: "dbl (6 / 5) = 5404319552844595 / 4503599627370496"
  by (rule trans [OF dbl_eval [where e = "0"]])
     (simp_all add: round_half_even_def Let_def power_int_minus)

lemma dbl_value_19: "dbl (61 / 50) = 5494391545392005 / 4503599627370496"
  by (rule trans [OF dbl_eval [where e = "0"]])
     (simp_all add: round_half_even_def Let_def power_int_minus)

lemma dbl_value_20: "dbl (12412834677434822056261337909035 / 10141204801825835211973625643008) = 5512405943901487 / 4503599627370496"
  by (rule trans [OF dbl_eval [where e = "0"]])
     (simp_all add: round_half_even_def Let_def power_int_minus)

lemma dbl_value_21: "dbl (127 / 100) = 2859785763380265 / 2251799813685248"
  by (rule trans [OF dbl_eval [where e = "0"]])
     (simp_all add: round_half_even_def Let_def power_int_minus)

lemma dbl_value_22: "dbl (11484179049794765 / 9007199254740992) = 2871044762448691 / 2251799813685248"
  by (rule trans [OF dbl_eval [where e = "0"]])
     (simp_all add: round_half_even_def Let_def power_int_minus)

lemma dbl_value_23: "dbl (129 / 100) = 1452410879826985 / 1125899906842624"
  by (rule trans [OF dbl_eval [where e = "0"]])
     (simp_all add: round_half_even_def Let_def power_int_minus)

lemma dbl_value_24: "dbl (3285750355791570703255046883115 / 2535301200456458802993406410752) = 5836665117072163 / 4503599627370496"
  by (rule trans [OF dbl_eval [where e = "0"]])
     (simp_all add: round_half_even_def Let_def power_int_minus)

lemma dbl_value_25: "dbl (2925087957977137 / 2251799813685248) = 2925087957977137 / 2251799813685248"
  by (rule trans [OF dbl_eval [where e = "0"]])
     (simp_all add: round_half_even_def Let_def power_int_minus)

lemma dbl_value_26: "dbl (1299 / 1000) = 2925087957977137 / 2251799813685248"
  by (rule trans [OF dbl_eval [where e = "0"]])
     (simp_all add: round_half_even_def Let_def power_int_minus)

lemma dbl_value_27: "dbl (10538423128046960 / 8106479329266893) = 1463669878895411 / 1125899906842624"
  by (rule trans [OF dbl_eval [where e = "0"]])
     (simp_all add: round_half_even_def Let_def power_int_minus)

lemma dbl_value_28: "dbl (8782019273372467 / 6755399441055744) = 5854679515581645 / 4503599627370496"
  by (rule trans [OF dbl_eval [where e = "0"]])
     (simp_all add: round_half_even_def Let_def power_int_minus)

lemma dbl_value_29: "dbl (13 / 10) = 5854679515581645 / 4503599627370496"
  by (rule trans [OF dbl_eval [where e = "0"]])
     (simp_all add: round_half_even_def Let_def power_int_minus)

lemma dbl_value_30: "dbl (27 / 20) = 3039929748475085 / 2251799813685248"
  by (rule trans [OF dbl_eval [where e = "0"]])
     (simp_all add: round_half_even_def Let_def power_int_minus)

lemma dbl_value_31: "dbl (3039929748475085 / 2251799813685248) = 3039929748475085 / 2251799813685248"
  by (rule trans [OF dbl_eval [where e = "0"]])
     (simp_all add: round_half_even_def Let_def power_int_minus)

lemma dbl_value_32: "dbl (2) = 2"
  by (rule trans [OF dbl_eval [where e = "1"]])
     (simp_all add: round_half_even_def Let_def power_int_minus)

lemma dbl_value_33: "dbl (51 / 25) = 2296835809958953 / 1125899906842624"
  by (rule trans [OF dbl_eval [where e = "1"]])
     (simp_all add: round_half_even_def Let_def power_int_minus)

lemma dbl_value_34: "dbl (2296835809958953 / 1125899906842624) = 2296835809958953 / 1125899906842624"
  by (rule trans [OF dbl_eval [where e = "1"]])
     (simp_all add: round_half_even_def Let_def power_int_minus)

lemma dbl_value_35: "dbl (54 / 25) = 607985949695017 / 281474976710656"
  by (rule trans [OF dbl_eval [where e = "1"]])
     (simp_all add: round_half_even_def Let_def power_int_minus)

lemma dbl_value_36: "dbl (607985949695017 / 281474976710656) = 607985949695017 / 281474976710656"
  by (rule trans [OF dbl_eval [where e = "1"]])
     (simp_all add: round_half_even_def Let_def power_int_minus)

lemma dbl_value_37: "dbl (39 / 10) = 8782019273372467 / 2251799813685248"
  by (rule trans [OF dbl_eval [where e = "1"]])
     (simp_all add: round_half_even_def Let_def power_int_minus)

lemma dbl_value_38: "dbl (477 / 100) = 1342635638909829 / 281474976710656"
  by (rule trans [OF dbl_eval [where e = "2"]])
     (simp_all add: round_half_even_def Let_def power_int_minus)

lemma dbl_value_39: "dbl (11258999068426240 / 2296835809958953) = 1379779297601255 / 281474976710656"
  by (rule trans [OF dbl_eval [where e = "2"]])
     (simp_all add: round_half_even_def Let_def power_int_minus)

lemma dbl_value_40: "dbl (4503599627370496 / 571957152676053) = 277042299912063 / 35184372088832"
  by (rule trans [OF dbl_eval [where e = "2"]])
     (simp_all add: round_half_even_def Let_def power_int_minus)

lemma dbl_value_41: "dbl (9007199254740992 / 1098878309078401) = 4614343880502557 / 562949953421312"
  by (rule trans [OF dbl_eval [where e = "3"]])
     (simp_all add: round_half_even_def Let_def power_int_minus)

lemma dbl_value_42: "dbl (22517998136852480 / 1733885856537641) = 7311038356120935 / 562949953421312"
  by (rule trans [OF dbl_eval [where e = "3"]])
     (simp_all add: round_half_even_def Let_def power_int_minus)

lemma dbl_value_43: "dbl (119345390125318125 / 1125899906842624) = 7459086882832383 / 70368744177664"
  by (rule trans [OF dbl_eval [where e = "6"]])
     (simp_all add: round_half_even_def Let_def power_int_minus)

lemma dbl_value_44: "dbl (61924494876344325 / 562949953421312) = 7740561859543041 / 70368744177664"
  by (rule trans [OF dbl_eval [where e = "6"]])
     (simp_all add: round_half_even_def Let_def power_int_minus)

lemma dbl_value_45: "dbl (135107988821114875 / 1125899906842624) = 120"
  by (rule trans [OF dbl_eval [where e = "6"]])
     (simp_all add: round_half_even_def Let_def power_int_minus)

lemma dbl_value_46: "dbl (73127198949428425 / 562949953421312) = 4570449934339277 / 35184372088832"
  by (rule trans [OF dbl_eval [where e = "7"]])
     (simp_all add: round_half_even_def Let_def power_int_minus)

lemma dbl_value_47: "dbl (36591746972385275 / 281474976710656) = 4573968371548159 / 35184372088832"
  by (rule trans [OF dbl_eval [where e = "7"]])
     (simp_all add: round_half_even_def Let_def power_int_minus)

lemma dbl_value_48: "dbl (146366987889541125 / 1125899906842624) = 130"
  by (rule trans [OF dbl_eval [where e = "7"]])
     (simp_all add: round_half_even_def Let_def power_int_minus)

lemma dbl_value_49: "dbl (13582985290493858492773514283592667786034938469317445497485196697278130927542418487205392083207560592298578262953847383475038725543234929971155548342800628721885763499406390331782864144164680730766837160526223176512798435772129956553355286032203080380775759732320198985094884004069116123084147875437183658467465148948790552744165376) = 13582985290493858492773514283592667786034938469317445497485196697278130927542418487205392083207560592298578262953847383475038725543234929971155548342800628721885763499406390331782864144164680730766837160526223176512798435772129956553355286032203080380775759732320198985094884004069116123084147875437183658467465148948790552744165376"
  by (rule trans [OF dbl_eval [where e = "1100"]])
     (simp_all add: round_half_even_def Let_def power_int_minus)

lemmas dbl_values =
  dbl_value_0 dbl_value_1 dbl_value_2 dbl_value_3 dbl_value_4 dbl_value_5 dbl_value_6
  dbl_value_7 dbl_value_8 dbl_value_9 dbl_value_10 dbl_value_11 dbl_value_12 dbl_value_13
  dbl_value_14 dbl_value_15 dbl_value_16 dbl_value_17 dbl_value_18 dbl_value_19 dbl_value_20
  dbl_value_21 dbl_value_22 dbl_value_23 dbl_value_24 dbl_value_25 dbl_value_26 dbl_value_27
  dbl_value_28 dbl_value_29 dbl_value_30 dbl_value_31 dbl_value_32 dbl_value_33 dbl_value_34
  dbl_value_35 dbl_value_36 dbl_value_37 dbl_value_38 dbl_value_39 dbl_value_40 dbl_value_41
  dbl_value_42 dbl_value_43 dbl_value_44 dbl_value_45 dbl_value_46 dbl_value_47 dbl_value_48
  dbl_value_49


lemmas float_eval =
  bar_range_ratio_def barRangeRatio_def py_truediv_def py_max2_def bind_def fl_def flt_def
  round_half_even_def truthy_def Let_def dbl_values


subsection \<open>Breakout classification\<close>





lemma mild_features_signal: "trade_signal mild_features = Inr (Enter Mild (dbl 1.1))"
  by (simp add: trade_signal_def mild_features_def float_eval)


lemma boundary_ratios:
  "bar_range_ratio (dbl 1.17) (dbl 0.9) = Inr (dbl 1.29)"
  "bar_range_ratio (dbl 3.9) 3 = Inr (dbl 1.30)"
  "bar_range_ratio (dbl 4.77) 4.5 = Inr (dbl 1.05)"
  by (simp_all add: float_eval)



text \<open>
  Claim C8. The bar range ratio is truncated to two decimals, not rounded: from high
  1.299 and low 1.0 it is 1.29 and not 1.30.
\<close>

theorem bar_range_ratio_truncates:
  "bar_range_ratio (dbl 1.299) 1.0 = Inr (dbl 1.29)
   \<and> bar_range_ratio (dbl 1.299) 1.0 \<noteq> Inr (dbl 1.30)"
  by (simp add: float_eval)

text \<open>
  Claim C9. The decision and the order depend on no volume: two feature vectors that
  differ only in the volume field give the same decision and the same outcome of the
  evaluation (the same order, messages or exception).
\<close>

theorem volume_independence:
  "trade_signal (f\<lparr>volume := v\<rparr>) = trade_signal f
   \<and> evaluate_features ib c (f\<lparr>volume := v\<rparr>) = evaluate_features ib c f"
proof -
  have "trade_signal (f\<lparr>volume := v\<rparr>) = trade_signal f"
    by (simp add: trade_signal_def cong: if_cong)
  then show ?thesis
    by (simp add: evaluate_features_def)
qed

theorem volume_independence_witness:
  "trade_signal (mild_features\<lparr>volume := 5\<rparr>) = Inr (Enter Mild (dbl 1.1))
   \<and> trade_signal mild_features = Inr (Enter Mild (dbl 1.1))
   \<and> evaluate_features example_broker example_contract (mild_features\<lparr>volume := 5\<rparr>)
       = evaluate_features example_broker example_contract mild_features"
  using volume_independence
      [where f = mild_features and v = 5 and ib = example_broker and c = example_contract]
    mild_features_signal
  by simp

subsection \<open>Order sizing\<close>

lemma py_max2_not_zero: "0 < c \<Longrightarrow> py_max2 s (Fin c) \<noteq> Fin 0"
  by (cases s) (auto simp: py_max2_def)


lemma build_order_floor:
  "build_order clock r m d =
     (let stop = py_round2 (fmul (Fin (dbl 1.02)) (Fin r));
          limit = py_round2 (fmul (Fin (dbl 1.08)) (Fin r))
      in case fdiv (Fin d) (py_max2 stop (Fin (dbl 0.01))) of
           Fin amount \<Rightarrow>
             if \<lfloor>amount\<rfloor> \<le> 0 then Inr None
             else Inr (Some \<lparr>action = ''BUY'', totalQuantity = \<lfloor>amount\<rfloor>, stopPrice = stop,
                              lmtPrice = limit, outsideRth = True, tif = ''GTD'',
                              goodTillDate = clock - clock mod 60 + 60 * m - 4 * 3600\<rparr>)
         | NaN \<Rightarrow> Inl ValueError
         | other \<Rightarrow> Inl OverflowError)"
proof -
  define stop where "stop = py_round2 (fmul (Fin (dbl 1.02)) (Fin r))"
  define limit where "limit = py_round2 (fmul (Fin (dbl 1.08)) (Fin r))"
  define q where "q = fdiv (Fin d) (py_max2 stop (Fin (dbl 0.01)))"
  have c: "0 < dbl 0.01" by (simp add: dbl_values)
  have td: "py_truediv (Fin d) (py_max2 stop (Fin (dbl 0.01))) = Inr q"
    using py_max2_not_zero [OF c, of stop] by (simp only: py_truediv_def q_def if_False)
  have b: "build_order clock r m d =
     bind (py_int q) (\<lambda>quantity.
       if quantity \<le> 0 then Inr None
       else Inr (Some \<lparr>action = ''BUY'', totalQuantity = quantity, stopPrice = stop,
                        lmtPrice = limit, outsideRth = True, tif = ''GTD'',
                        goodTillDate = clock - clock mod 60 + 60 * m - 4 * 3600\<rparr>))"
    unfolding build_order_def Let_def stop_def [symmetric] limit_def [symmetric] td
    by (simp only: bind_def sum.case)
  have "build_order clock r m d =
     (case q of
        Fin amount \<Rightarrow>
          if \<lfloor>amount\<rfloor> \<le> 0 then Inr None
          else Inr (Some \<lparr>action = ''BUY'', totalQuantity = \<lfloor>amount\<rfloor>, stopPrice = stop,
                           lmtPrice = limit, outsideRth = True, tif = ''GTD'',
                           goodTillDate = clock - clock mod 60 + 60 * m - 4 * 3600\<rparr>)
      | NaN \<Rightarrow> Inl ValueError
      | other \<Rightarrow> Inl OverflowError)"
    unfolding b
    by (cases q) (auto simp: bind_def floor_le_iff ceiling_le_iff)
  then show ?thesis
    unfolding Let_def stop_def limit_def q_def .
qed


lemma build_order_example: "build_order 50030 2.00 3 10 = Inr (Some example_order)"
  by (simp add: build_order_floor example_order_def float_eval)


lemma get_spread_ratio_example:
  "get_spread_ratio example_broker example_contract = Inr (Fin (dbl 1.02))"
  by (simp add: get_spread_ratio_def example_broker_def float_eval)





subsection \<open>Risk checks\<close>

lemma risk_checks_before_entry:
  "(submit_entry_order ib c r m d = Inr events \<and> Placed c' ord \<in> set events \<longrightarrow>
      (\<exists>spread traded. get_spread_ratio ib c = Inr spread \<and> \<not> fgt spread (Fin (dbl 1.05))
         \<and> fetch_symbols_traded_today ib = Inr traded \<and> symbol c \<notin> traded))
   \<and> (reqMktData ib c = Inr t \<and> (bid t = None \<or> ask t = None) \<longrightarrow>
        get_spread_ratio ib c = Inr PInf)
   \<and> (get_spread_ratio ib c = Inr spread \<and> fgt spread (Fin (dbl 1.05)) \<longrightarrow>
        submit_entry_order ib c r m d = Inr [])
   \<and> (get_spread_ratio ib c = Inr spread \<and> fetch_symbols_traded_today ib = Inr traded
        \<and> symbol c \<in> traded \<longrightarrow> submit_entry_order ib c r m d = Inr [])"
proof -
  have a: "\<exists>spread traded. get_spread_ratio ib c = Inr spread \<and> \<not> fgt spread (Fin (dbl 1.05))
         \<and> fetch_symbols_traded_today ib = Inr traded \<and> symbol c \<notin> traded"
    if "submit_entry_order ib c r m d = Inr events" "Placed c' ord \<in> set events"
    using that unfolding submit_entry_order_def bind_def
    by (auto split: sum.splits if_splits option.splits)
  have b: "get_spread_ratio ib c = Inr PInf"
    if "reqMktData ib c = Inr t" "bid t = None \<or> ask t = None"
    using that unfolding get_spread_ratio_def bind_def by (auto split: option.splits)
  have d1: "submit_entry_order ib c r m d = Inr []"
    if "get_spread_ratio ib c = Inr spread" "fgt spread (Fin (dbl 1.05))"
    using that unfolding submit_entry_order_def bind_def by simp
  have d2: "submit_entry_order ib c r m d = Inr []"
    if "get_spread_ratio ib c = Inr spread" "fetch_symbols_traded_today ib = Inr traded"
       "symbol c \<in> traded"
    using that unfolding submit_entry_order_def bind_def by simp
  show ?thesis
    using a b d1 d2 by blast
qed

lemma wide_spread_is_vetoed:
  "get_spread_ratio wide_spread_broker example_contract = Inr (Fin (dbl 1.10))"
  "submit_entry_order wide_spread_broker example_contract 2.00 3 10 = Inr []"
proof -
  show s: "get_spread_ratio wide_spread_broker example_contract = Inr (Fin (dbl 1.10))"
    by (simp add: get_spread_ratio_def wide_spread_broker_def float_eval)
  have "fgt (Fin (dbl 1.10)) (Fin (dbl 1.05))" by (simp add: dbl_values)
  then show "submit_entry_order wide_spread_broker example_contract 2.00 3 10 = Inr []"
    by (simp add: submit_entry_order_def s bind_def)
qed

text \<open>
  Claim C5, where the code fails it. A side of the quote that the session has not filled
  is NaN. NaN is not false, so the test for a missing side lets it through; the ratio is
  NaN, which is not greater than 1.05, and the order is placed where the claim has an
  infinite ratio and a veto.
\<close>

theorem nan_quote_order_is_placed:
  "get_spread_ratio nan_quote_broker example_contract = Inr NaN
   \<and> submit_entry_order nan_quote_broker example_contract 2.00 3 10 =
       Inr [Placed example_contract example_order,
            EntryMessage ''ABCD'' 4 (Fin (dbl 2.04)) (Fin (dbl 2.16))]"
proof -
  have g: "get_spread_ratio nan_quote_broker example_contract = Inr NaN"
    by (simp add: get_spread_ratio_def nan_quote_broker_def bind_def py_truediv_def)
  have n: "now nan_quote_broker = 50030"
    by (simp add: nan_quote_broker_def example_broker_def)
  have t: "fetch_symbols_traded_today nan_quote_broker = Inr {''WXYZ''}"
    by (simp add: fetch_symbols_traded_today_def nan_quote_broker_def example_broker_def bind_def)
  have p: "placeOrder nan_quote_broker example_contract example_order = Inr ()"
    by (simp add: nan_quote_broker_def example_broker_def)
  have s: "symbol example_contract = ''ABCD''" by (simp add: example_contract_def Stock_def)
  have "submit_entry_order nan_quote_broker example_contract 2.00 3 10 =
       Inr [Placed example_contract example_order,
            EntryMessage ''ABCD'' 4 (Fin (dbl 2.04)) (Fin (dbl 2.16))]"
    unfolding submit_entry_order_def g n t build_order_example
    by (simp add: bind_def p s) (simp add: example_order_def)
  with g show ?thesis by simp
qed

theorem nan_quote_order_is_placed_witness:
  "truthy_float NaN \<and> fdiv NaN NaN = NaN \<and> \<not> fgt NaN (Fin (dbl 1.05))
   \<and> get_spread_ratio nan_quote_broker example_contract = Inr NaN
   \<and> Placed example_contract example_order
       \<in> set [Placed example_contract example_order,
              EntryMessage ''ABCD'' 4 (Fin (dbl 2.04)) (Fin (dbl 2.16))]"
  using nan_quote_order_is_placed by simp

subsection \<open>Feature extraction\<close>

lemma py_max_Max: "xs \<noteq> [] \<Longrightarrow> py_max xs = Inr (Max (set xs))"
proof (cases xs)
  case (Cons a list)
  then show ?thesis using Max.set_eq_fold [of a list] by simp
qed simp

lemma py_min_Min: "xs \<noteq> [] \<Longrightarrow> py_min xs = Inr (Min (set xs))"
proof (cases xs)
  case (Cons a list)
  then show ?thesis using Min.set_eq_fold [of a list] by simp
qed simp

lemma truthy_filter: "filter truthy xs = filter (\<lambda>l. l \<noteq> 0) xs"
proof -
  have "truthy = (\<lambda>l. l \<noteq> 0)" by (rule ext) (simp add: truthy_def)
  then show ?thesis by simp
qed

lemma guarded_quotient:
  "(if truthy l then py_truediv (Fin h) (Fin l) else Inr (Fin 1.0))
     = Inr (if l \<noteq> 0 then fl (h / l) else Fin 1)"
  by (simp add: truthy_def py_truediv_def)

lemma recent_window_slice:
  assumes "length window = 5"
  shows "slice (older @ window @ [latest])
           (length (older @ window @ [latest]) - 6) (length (older @ window @ [latest]) - 1)
         = window"
  using assms by (simp add: slice_def)

lemma prev_of_window:
  assumes "window \<noteq> []"
  shows "(older @ window @ [latest]) ! (length (older @ window @ [latest]) - 2) = last window"
proof -
  have "(older @ window @ [latest]) ! (length older + (length window - 1))
          = (window @ [latest]) ! (length window - 1)"
    by (simp only: nth_append_length_plus)
  also have "\<dots> = window ! (length window - 1)"
    using assms by (simp add: nth_append)
  also have "\<dots> = last window"
    using assms by (simp add: last_conv_nth)
  finally show ?thesis
    using assms by (cases window) (simp_all add: add.commute)
qed

lemma intraminute_features_zero_lows:
  "intraminute_features (replicate 6 zero_low_bar) = Inl ValueError"
  by (simp add: intraminute_features_def slice_def numeral_eq_Suc zero_low_bar_def truthy_def
      bind_def)

text \<open>
  Claim C2, as amended. An empty window gives zero prices and volume, previous ratio 0 and
  last-five ratio 1; a single bar gives its own prices and volume with both ratios 1; a
  window of two to five bars gives the prices and volume of the last bar, last-five ratio
  1, and as previous ratio the high over the low of the bar before the last when that low
  is not zero, else 1. The test on the low is for zero, not for a positive value; for a
  low that is not negative the two agree.
\<close>

theorem intraminute_features_short_window:
  "intraminute_features [] =
     Inr \<lparr>open_price = 0, high_price = 0, low_price = 0, close_price = 0, volume = 0,
          prev_range_ratio = Fin 0, last_five_ratio = Fin 1\<rparr>
   \<and> intraminute_features [b] =
     Inr \<lparr>open_price = bar_open b, high_price = bar_high b, low_price = bar_low b,
          close_price = bar_close b, volume = bar_volume b,
          prev_range_ratio = Fin 1, last_five_ratio = Fin 1\<rparr>
   \<and> (length older \<le> 3 \<longrightarrow>
       intraminute_features (older @ [prev, latest]) =
         Inr \<lparr>open_price = bar_open latest, high_price = bar_high latest,
              low_price = bar_low latest, close_price = bar_close latest,
              volume = bar_volume latest,
              prev_range_ratio =
                (if bar_low prev \<noteq> 0 then fl (bar_high prev / bar_low prev) else Fin 1),
              last_five_ratio = Fin 1\<rparr>)
   \<and> (0 \<le> bar_low prev \<longrightarrow>
       (if bar_low prev \<noteq> 0 then fl (bar_high prev / bar_low prev) else Fin 1)
         = spec_prevBarRangeRatio prev)"
proof -
  have three: "intraminute_features (older @ [prev, latest]) =
         Inr \<lparr>open_price = bar_open latest, high_price = bar_high latest,
              low_price = bar_low latest, close_price = bar_close latest,
              volume = bar_volume latest,
              prev_range_ratio =
                (if bar_low prev \<noteq> 0 then fl (bar_high prev / bar_low prev) else Fin 1),
              last_five_ratio = Fin 1\<rparr>" if "length older \<le> 3"
  proof -
    have p: "(older @ [prev, latest]) ! (length (older @ [prev, latest]) - 2) = prev"
      by (simp add: nth_append)
    have l: "last (older @ [prev, latest]) = latest" by simp
    have n: "older @ [prev, latest] \<noteq> []" "length (older @ [prev, latest]) \<noteq> 1"
      "length (older @ [prev, latest]) < 6"
      using that by simp_all
    show ?thesis
      unfolding intraminute_features_def Let_def p l guarded_quotient
      using n by (simp add: bind_def)
  qed
  have spec: "(if bar_low prev \<noteq> 0 then fl (bar_high prev / bar_low prev) else Fin 1)
      = spec_prevBarRangeRatio prev"
    if "0 \<le> bar_low prev"
    using that by (simp add: spec_prevBarRangeRatio_def)
  show ?thesis
    using three spec by (simp add: intraminute_features_def)
qed

theorem intraminute_features_short_window_witness:
  "length ([] :: bar list) \<le> 3 \<and> 0 \<le> bar_low plain_bar
   \<and> intraminute_features [plain_bar, plain_bar] =
       Inr \<lparr>open_price = 1, high_price = dbl 1.2, low_price = 1, close_price = dbl 1.1,
            volume = 100, prev_range_ratio = Fin (dbl 1.2), last_five_ratio = Fin 1\<rparr>
   \<and> spec_prevBarRangeRatio plain_bar = Fin (dbl 1.2)"
  using intraminute_features_short_window [of plain_bar "[]" plain_bar plain_bar]
  by (simp add: plain_bar_def fl_def dbl_values)

text \<open>
  The claim as stated fails on a previous bar with a negative low: the code divides,
  giving \<open>2 / - 1\<close>, where the stated rule gives 1.
\<close>

theorem prev_ratio_negative_low_counterexample:
  "intraminute_features [negative_low_bar, plain_bar] =
       Inr \<lparr>open_price = 1, high_price = dbl 1.2, low_price = 1, close_price = dbl 1.1,
            volume = 100, prev_range_ratio = Fin (- 2), last_five_ratio = Fin 1\<rparr>
   \<and> spec_prevBarRangeRatio negative_low_bar = Fin 1"
  by (simp add: intraminute_features_def spec_prevBarRangeRatio_def negative_low_bar_def
      plain_bar_def float_eval)

text \<open>
  Claim C3, as amended. For a window of six or more bars in which one of the five bars
  before the last has a low that is not zero, the last-five ratio is the greatest high of
  those five bars over the least of their lows that are not zero, and the other fields
  are as for shorter windows. When the lows are not negative this is the ratio of the
  specification.
\<close>

theorem last_five_ratio_full_window:
  "(length window = 5 \<and> filter (\<lambda>l. l \<noteq> 0) (map bar_low window) \<noteq> [] \<longrightarrow>
      intraminute_features (older @ window @ [latest]) =
        Inr \<lparr>open_price = bar_open latest, high_price = bar_high latest,
             low_price = bar_low latest, close_price = bar_close latest,
             volume = bar_volume latest,
             prev_range_ratio =
               (if bar_low (last window) \<noteq> 0
                then fl (bar_high (last window) / bar_low (last window)) else Fin 1),
             last_five_ratio =
               fl (Max (set (map bar_high window))
                     / Min (set (filter (\<lambda>l. l \<noteq> 0) (map bar_low window))))\<rparr>)
   \<and> (window \<noteq> [] \<and> (\<forall>b \<in> set window. 0 \<le> bar_low b)
        \<and> filter (\<lambda>l. l \<noteq> 0) (map bar_low window) \<noteq> [] \<longrightarrow>
      fl (Max (set (map bar_high window))
            / Min (set (filter (\<lambda>l. l \<noteq> 0) (map bar_low window))))
        = spec_lastFiveRangeRatio window)"
proof -
  let ?bars = "older @ window @ [latest]"
  let ?lows = "filter (\<lambda>l. l \<noteq> 0) (map bar_low window)"
  have main: "intraminute_features ?bars =
        Inr \<lparr>open_price = bar_open latest, high_price = bar_high latest,
             low_price = bar_low latest, close_price = bar_close latest,
             volume = bar_volume latest,
             prev_range_ratio =
               (if bar_low (last window) \<noteq> 0
                then fl (bar_high (last window) / bar_low (last window)) else Fin 1),
             last_five_ratio = fl (Max (set (map bar_high window)) / Min (set ?lows))\<rparr>"
    if len: "length window = 5" and lows: "?lows \<noteq> []"
  proof -
    have w: "window \<noteq> []" using len by auto
    have n: "?bars \<noteq> []" "length ?bars \<noteq> 1" "\<not> length ?bars < 6"
      using len by simp_all
    have l: "last ?bars = latest" by simp
    have mx: "py_max (map bar_high window) = Inr (Max (set (map bar_high window)))"
      using w by (simp add: py_max_Max)
    have mn: "py_min (filter truthy (map bar_low window)) = Inr (Min (set ?lows))"
      unfolding truthy_filter using lows by (rule py_min_Min)
    have "set ?lows \<noteq> {}"
      using lows by (simp only: set_empty not_False_eq_True)
    then have "Min (set ?lows) \<in> set ?lows"
      by (rule Min_in [OF finite_set])
    then have nz: "Min (set ?lows) \<noteq> 0"
      by simp
    show ?thesis
      unfolding intraminute_features_def Let_def guarded_quotient
      by (simp only: n l recent_window_slice [OF len] prev_of_window [OF w] mx mn nz
            bind_def sum.case if_False if_True not_False_eq_True)
  qed
  have spec: "fl (Max (set (map bar_high window)) / Min (set ?lows))
      = spec_lastFiveRangeRatio window"
    if "window \<noteq> []" "\<forall>b \<in> set window. 0 \<le> bar_low b" "?lows \<noteq> []"
  proof -
    have "filter (\<lambda>l. l > 0) (map bar_low window) = ?lows"
      using that(2) by (intro filter_cong) auto
    with that(3) show ?thesis
      by (simp add: spec_lastFiveRangeRatio_def Let_def)
  qed
  show ?thesis using main spec by blast
qed

theorem last_five_ratio_full_window_witness:
  "length (replicate 5 plain_bar) = 5
   \<and> filter (\<lambda>l. l \<noteq> 0) (map bar_low (replicate 5 plain_bar)) \<noteq> []
   \<and> set (replicate 5 plain_bar) = {plain_bar} \<and> 0 \<le> bar_low plain_bar
   \<and> intraminute_features ([zero_low_bar] @ replicate 5 plain_bar @ [plain_bar]) =
       Inr \<lparr>open_price = 1, high_price = dbl 1.2, low_price = 1, close_price = dbl 1.1,
            volume = 100, prev_range_ratio = Fin (dbl 1.2), last_five_ratio = Fin (dbl 1.2)\<rparr>
   \<and> spec_lastFiveRangeRatio (replicate 5 plain_bar) = Fin (dbl 1.2)"
proof -
  have l: "length (replicate 5 plain_bar) = 5" by simp
  have f: "filter (\<lambda>l. l \<noteq> 0) (map bar_low (replicate 5 plain_bar)) = replicate 5 1"
    by (simp add: plain_bar_def)
  have n: "replicate 5 (1::real) \<noteq> []" "replicate 5 plain_bar \<noteq> []" by simp_all
  have p: "\<forall>b \<in> set (replicate 5 plain_bar). 0 \<le> bar_low b" by (simp add: plain_bar_def)
  have la: "last (replicate 5 plain_bar) = plain_bar" by simp
  have mx: "Max (set (map bar_high (replicate 5 plain_bar))) = dbl 1.2"
    by (simp add: plain_bar_def)
  have mn: "Min (set (replicate 5 (1::real))) = 1" by simp
  have q: "fl (dbl 1.2 / 1) = Fin (dbl 1.2)" by (simp add: fl_def dbl_values)
  show ?thesis
    using last_five_ratio_full_window [of "replicate 5 plain_bar" "[zero_low_bar]" plain_bar]
    unfolding f la mx mn using l n p q
    by (simp add: plain_bar_def)
qed

text \<open>
  The claim as stated fails twice. A negative low among the five bars is kept by the
  code's filter and becomes the minimum, where the stated rule drops it. And when all
  five lows are zero the code does not return 1: \<^verbatim>\<open>min\<close> is called on an empty
  sequence and raises \<^verbatim>\<open>ValueError\<close>.
\<close>

theorem last_five_ratio_counterexample:
  "intraminute_features (negative_low_bar # replicate 5 plain_bar) =
       Inr \<lparr>open_price = 1, high_price = dbl 1.2, low_price = 1, close_price = dbl 1.1,
            volume = 100, prev_range_ratio = Fin (dbl 1.2), last_five_ratio = Fin (- 2)\<rparr>
   \<and> spec_lastFiveRangeRatio (negative_low_bar # replicate 4 plain_bar) = Fin 2
   \<and> intraminute_features (replicate 6 zero_low_bar) = Inl ValueError
   \<and> spec_lastFiveRangeRatio (replicate 5 zero_low_bar) = Fin 1"
proof -
  have h: "dbl 1.2 < 2" by (simp add: dbl_values)
  have a: "intraminute_features (negative_low_bar # replicate 5 plain_bar) =
       Inr \<lparr>open_price = 1, high_price = dbl 1.2, low_price = 1, close_price = dbl 1.1,
            volume = 100, prev_range_ratio = Fin (dbl 1.2), last_five_ratio = Fin (- 2)\<rparr>"
    by (simp add: intraminute_features_def slice_def numeral_eq_Suc negative_low_bar_def
          plain_bar_def float_eval)
  have b: "spec_lastFiveRangeRatio (negative_low_bar # replicate 4 plain_bar) = Fin 2"
    by (simp add: spec_lastFiveRangeRatio_def numeral_eq_Suc negative_low_bar_def plain_bar_def
          float_eval)
  have c: "spec_lastFiveRangeRatio (replicate 5 zero_low_bar) = Fin 1"
    by (simp add: spec_lastFiveRangeRatio_def numeral_eq_Suc zero_low_bar_def)
  show ?thesis using a b c intraminute_features_zero_lows by simp
qed

subsection \<open>The concurrency limiter\<close>

lemma count_list_update:
  "i < length xs \<Longrightarrow>
   length (filter P (xs[i := y])) + (if P (xs ! i) then 1 else 0)
     = length (filter P xs) + (if P y then 1 else 0)"
proof (induction xs arbitrary: i)
  case Nil
  then show ?case by simp
next
  case (Cons x xs)
  show ?case
  proof (cases i)
    case 0
    then show ?thesis by simp
  next
    case (Suc j)
    with Cons.prems have "j < length xs" by simp
    from Cons.IH [OF this] Suc show ?thesis by simp
  qed
qed

lemma holders_acquire:
  assumes "i < length (tasks s)" "tasks s ! i = Waiting"
  shows "holders \<lparr>permits = p, tasks = (tasks s)[i := Holding]\<rparr> = holders s + 1"
  using count_list_update [OF assms(1), of "\<lambda>t. t = Holding" Holding] assms(2)
  by (simp add: holders_def)

lemma holders_leave:
  assumes "i < length (tasks s)" "tasks s ! i = Holding"
  shows "holders \<lparr>permits = p, tasks = (tasks s)[i := Finished outcome]\<rparr> + 1 = holders s"
  using count_list_update [OF assms(1), of "\<lambda>t. t = Holding" "Finished outcome"] assms(2)
  by (simp add: holders_def)

lemma fire_keeps_balance:
  assumes "fire s a = Some s'"
  shows "holders s' + permits s' = holders s + permits s \<and> length (tasks s') = length (tasks s)"
proof (cases a)
  case (Acquire i)
  with assms have g: "i < length (tasks s)" "tasks s ! i = Waiting" "0 < permits s"
    and s': "s' = \<lparr>permits = permits s - 1, tasks = (tasks s)[i := Holding]\<rparr>"
    by (auto split: if_splits)
  show ?thesis
    unfolding s' using holders_acquire [OF g(1,2)] g(3) by simp
next
  case (Leave i outcome)
  with assms have g: "i < length (tasks s)" "tasks s ! i = Holding"
    and s': "s' = \<lparr>permits = permits s + 1, tasks = (tasks s)[i := Finished outcome]\<rparr>"
    by (auto split: if_splits)
  show ?thesis
    unfolding s' using holders_leave [OF g, of "permits s + 1" outcome] by simp
qed

lemma run_schedule_keeps_balance:
  "run_schedule s schedule = Some s' \<Longrightarrow>
   holders s' + permits s' = holders s + permits s \<and> length (tasks s') = length (tasks s)"
proof (induction schedule arbitrary: s)
  case Nil
  then show ?case by simp
next
  case (Cons a schedule)
  then obtain t where t: "fire s a = Some t" "run_schedule t schedule = Some s'"
    by (auto split: option.splits)
  from fire_keeps_balance [OF t(1)] Cons.IH [OF t(2)] show ?case by simp
qed

lemma holders_scan_start: "holders (scan_start n) = 0"
  by (simp add: holders_def scan_start_def)

text \<open>
  Claim C6. In a scan over \<open>n\<close> symbols, under every schedule of the tasks, the number
  of tasks holding a permit never exceeds the bound of 50; permits held and permits free
  always add up to 50, so a task that has finished holds none; a task that holds one
  gives it back whatever the outcome of its body, an exception included; and with 50
  holders no further task gets in.
\<close>

theorem permits_never_exceed_bound:
  "run_schedule (scan_start n) schedule = Some s \<Longrightarrow>
     holders s \<le> SEMAPHORE_BOUND
     \<and> holders s + permits s = SEMAPHORE_BOUND
     \<and> length (tasks s) = n
     \<and> (\<forall>i < n. tasks s ! i = Holding \<longrightarrow>
          (\<forall>outcome. \<exists>s'. fire s (Leave i outcome) = Some s'
               \<and> permits s' = permits s + 1 \<and> holders s' + 1 = holders s))
     \<and> (\<forall>i. holders s = SEMAPHORE_BOUND \<longrightarrow> fire s (Acquire i) = None)"
proof -
  assume r: "run_schedule (scan_start n) schedule = Some s"
  from run_schedule_keeps_balance [OF r]
  have b: "holders s + permits s = SEMAPHORE_BOUND" and l: "length (tasks s) = n"
    by (simp_all add: holders_scan_start) (simp_all add: scan_start_def)
  have rel: "\<exists>s'. fire s (Leave i outcome) = Some s'
               \<and> permits s' = permits s + 1 \<and> holders s' + 1 = holders s"
    if "i < n" "tasks s ! i = Holding" for i outcome
    using that l holders_leave [of i s "permits s + 1" outcome] by simp
  have blk: "fire s (Acquire i) = None" if "holders s = SEMAPHORE_BOUND" for i
    using that b by simp
  show ?thesis using b l rel blk by auto
qed

theorem permits_never_exceed_bound_witness:
  "run_schedule (scan_start 51) (map Acquire [0..<50]) =
       Some \<lparr>permits = 0, tasks = replicate 50 Holding @ [Waiting]\<rparr>
   \<and> holders \<lparr>permits = 0, tasks = replicate 50 Holding @ [Waiting]\<rparr> = SEMAPHORE_BOUND
   \<and> fire \<lparr>permits = 0, tasks = replicate 50 Holding @ [Waiting]\<rparr> (Acquire 50) = None"
proof -
  have r: "run_schedule (scan_start 51) (map Acquire [0..<50]) =
       Some \<lparr>permits = 0, tasks = replicate 50 Holding @ [Waiting]\<rparr>"
    by code_simp
  from permits_never_exceed_bound [OF r] show ?thesis
    using r by (simp add: SEMAPHORE_BOUND_def)
qed

subsection \<open>Failure isolation\<close>

lemma evaluate_fail_example:
  "fetch_intraminute_features example_broker (Stock ''FAIL'' ''SMART'' ''USD'')
     = Inl (BrokerError ''timeout'')"
  by (simp add: fetch_intraminute_features_def example_broker_def Stock_def bind_def)

lemma evaluate_zero_example:
  "fetch_intraminute_features example_broker (Stock ''ZERO'' ''SMART'' ''USD'') = Inl ValueError"
  by (simp add: fetch_intraminute_features_def example_broker_def Stock_def bind_def
      intraminute_features_zero_lows)

lemma build_order_strong: "build_order 50030 (dbl 1.2) 3 10 = Inr (Some strong_order)"
  by (simp add: build_order_floor strong_order_def float_eval)

lemma submit_entry_order_strong:
  "submit_entry_order example_broker example_contract (dbl 1.2) 3 10 =
     Inr [Placed example_contract strong_order,
          EntryMessage ''ABCD'' 8 (Fin (dbl 1.22)) (Fin (dbl 1.30))]"
proof -
  have n: "now example_broker = 50030" by (simp add: example_broker_def)
  have t: "fetch_symbols_traded_today example_broker = Inr {''WXYZ''}"
    by (simp add: fetch_symbols_traded_today_def example_broker_def bind_def)
  have p: "placeOrder example_broker example_contract strong_order = Inr ()"
    by (simp add: example_broker_def)
  have s: "symbol example_contract = ''ABCD''" by (simp add: example_contract_def Stock_def)
  have g: "\<not> fgt (Fin (dbl 1.02)) (Fin (dbl 1.05))" by (simp add: dbl_values)
  show ?thesis
    unfolding submit_entry_order_def get_spread_ratio_example n t build_order_strong
    using g by (simp add: bind_def p s) (simp add: strong_order_def)
qed

lemma fetch_example:
  "fetch_intraminute_features example_broker example_contract =
     Inr \<lparr>open_price = 1, high_price = dbl 1.2, low_price = 1, close_price = dbl 1.1,
          volume = 100, prev_range_ratio = Fin 1, last_five_ratio = Fin 1\<rparr>"
  by (simp add: fetch_intraminute_features_def example_broker_def example_contract_def
      Stock_def bind_def intraminute_features_def plain_bar_def)

lemma trade_signal_example:
  "trade_signal \<lparr>open_price = 1, high_price = dbl 1.2, low_price = 1, close_price = dbl 1.1,
          volume = 100, prev_range_ratio = Fin 1, last_five_ratio = Fin 1\<rparr>
     = Inr (Enter Strong (dbl 1.2))"
  by (simp add: trade_signal_def float_eval)

lemma evaluate_example:
  "evaluate_and_trade_symbol example_broker example_contract =
     Inr [Placed example_contract strong_order, EntryMessage ''ABCD'' 8 (Fin (dbl 1.22)) (Fin (dbl 1.30))]"
proof -
  have "dollar_risk Strong = 10" by simp
  then show ?thesis
    unfolding evaluate_and_trade_symbol_def fetch_example
    by (simp only: bind_def sum.case evaluate_features_def trade_signal_example decision.case
          submit_entry_order_strong)
qed

lemma evaluate_and_trade_symbol_returns: "\<exists>events. evaluate_and_trade_symbol ib c = Inr events"
  unfolding evaluate_and_trade_symbol_def by (simp split: sum.splits)

lemma gather_returns:
  "(\<And>x. x \<in> set xs \<Longrightarrow> \<exists>y. g x = Inr y) \<Longrightarrow>
   \<exists>ys. gather (map g xs) = Inr ys \<and> length ys = length xs
        \<and> (\<forall>i < length xs. g (xs ! i) = Inr (ys ! i))"
proof (induction xs)
  case Nil
  then show ?case by simp
next
  case (Cons x xs)
  from Cons.prems obtain y where y: "g x = Inr y" by auto
  from Cons obtain ys where ys: "gather (map g xs) = Inr ys" "length ys = length xs"
    "\<forall>i < length xs. g (xs ! i) = Inr (ys ! i)" by auto
  have "\<forall>i < length (x # xs). g ((x # xs) ! i) = Inr ((y # ys) ! i)"
    using y ys(3) by (auto simp: nth_Cons split: nat.splits)
  with y ys show ?case by auto
qed

lemma scan_universe_once_returns:
  "\<exists>results. scan_universe_once ib contracts = Inr results
     \<and> length results = length contracts
     \<and> (\<forall>i < length contracts. evaluate_and_trade_symbol ib (contracts ! i) = Inr (results ! i))"
  unfolding scan_universe_once_def
  by (rule gather_returns) (rule evaluate_and_trade_symbol_returns)

lemma run_intraday_scanner_returns:
  "\<exists>iterations. run_intraday_scanner contracts sessions = Inr iterations
     \<and> length iterations = length sessions"
proof (induction sessions)
  case Nil
  then show ?case by simp
next
  case (Cons ib rest)
  then obtain more where more: "run_intraday_scanner contracts rest = Inr more"
    "length more = length rest" by auto
  obtain results where "scan_universe_once ib contracts = Inr results"
    using scan_universe_once_returns by blast
  with more show ?case by (simp add: bind_def)
qed

text \<open>
  Claim C7. Every exception raised inside one symbol's evaluation, by the data fetch, the
  feature extraction, the risk checks or the order submission, is caught there: the
  evaluation prints it and returns. So the evaluation of a symbol never raises; a scan
  returns one result per contract, each the result of that contract's own evaluation; and
  the scheduler loop gets through every heartbeat without an exception.
\<close>

theorem failures_are_isolated:
  "(\<exists>events. evaluate_and_trade_symbol ib c = Inr events)
   \<and> (fetch_intraminute_features ib c = Inl e \<longrightarrow>
        evaluate_and_trade_symbol ib c = Inr [ErrorMessage (symbol c) e])
   \<and> (fetch_intraminute_features ib c = Inr f \<and> evaluate_features ib c f = Inl e \<longrightarrow>
        evaluate_and_trade_symbol ib c = Inr [ErrorMessage (symbol c) e])
   \<and> (\<exists>results. scan_universe_once ib contracts = Inr results
        \<and> length results = length contracts
        \<and> (\<forall>i < length contracts.
              evaluate_and_trade_symbol ib (contracts ! i) = Inr (results ! i)))
   \<and> (\<exists>iterations. run_intraday_scanner contracts sessions = Inr iterations
        \<and> length iterations = length sessions)"
proof -
  have a: "evaluate_and_trade_symbol ib c = Inr [ErrorMessage (symbol c) e]"
    if "fetch_intraminute_features ib c = Inl e"
    using that by (simp add: evaluate_and_trade_symbol_def bind_def)
  have b: "evaluate_and_trade_symbol ib c = Inr [ErrorMessage (symbol c) e]"
    if "fetch_intraminute_features ib c = Inr f" "evaluate_features ib c f = Inl e"
    using that by (simp add: evaluate_and_trade_symbol_def bind_def)
  show ?thesis
    using a b evaluate_and_trade_symbol_returns [of ib c]
      scan_universe_once_returns [of ib contracts]
      run_intraday_scanner_returns [of contracts sessions]
    by blast
qed

theorem failures_are_isolated_witness:
  "fetch_intraminute_features example_broker (Stock ''FAIL'' ''SMART'' ''USD'')
     = Inl (BrokerError ''timeout'')
   \<and> evaluate_and_trade_symbol example_broker (Stock ''FAIL'' ''SMART'' ''USD'')
     = Inr [ErrorMessage ''FAIL'' (BrokerError ''timeout'')]
   \<and> scan_universe_once example_broker
        [Stock ''FAIL'' ''SMART'' ''USD'', Stock ''ZERO'' ''SMART'' ''USD'', example_contract]
     = Inr [[ErrorMessage ''FAIL'' (BrokerError ''timeout'')],
            [ErrorMessage ''ZERO'' ValueError],
            [Placed example_contract strong_order, EntryMessage ''ABCD'' 8 (Fin (dbl 1.22)) (Fin (dbl 1.30))]]
   \<and> run_intraday_scanner [Stock ''FAIL'' ''SMART'' ''USD'', example_contract]
        [example_broker, example_broker\<lparr>now := 50040\<rparr>]
     = Inr [Scanned [[ErrorMessage ''FAIL'' (BrokerError ''timeout'')],
                     [Placed example_contract strong_order, EntryMessage ''ABCD'' 8 (Fin (dbl 1.22)) (Fin (dbl 1.30))]],
            Slept]"
proof -
  let ?fail = "Stock ''FAIL'' ''SMART'' ''USD''"
  let ?zero = "Stock ''ZERO'' ''SMART'' ''USD''"
  have f: "evaluate_and_trade_symbol example_broker ?fail
     = Inr [ErrorMessage ''FAIL'' (BrokerError ''timeout'')]"
    using failures_are_isolated
      [where ib = example_broker and c = ?fail and e = "BrokerError ''timeout''"]
      evaluate_fail_example
    by (simp add: Stock_def)
  have z: "evaluate_and_trade_symbol example_broker ?zero = Inr [ErrorMessage ''ZERO'' ValueError]"
    using evaluate_zero_example
    by (simp add: evaluate_and_trade_symbol_def bind_def Stock_def)
  have n: "now example_broker mod 60 > 45" "\<not> now (example_broker\<lparr>now := 50040\<rparr>) mod 60 > 45"
    by (simp_all add: example_broker_def)
  have s: "scan_universe_once example_broker [?fail, example_contract]
     = Inr [[ErrorMessage ''FAIL'' (BrokerError ''timeout'')],
            [Placed example_contract strong_order, EntryMessage ''ABCD'' 8 (Fin (dbl 1.22)) (Fin (dbl 1.30))]]"
    by (simp add: scan_universe_once_def f evaluate_example)
  show ?thesis
    using n by (simp add: evaluate_fail_example f z evaluate_example scan_universe_once_def s bind_def)
qed

subsection \<open>The universe\<close>






end
